theory Spec2Isabelle
  imports Main
begin

section \<open>The node server of the image populator (pkg/image/nodeserver.go)\<close>

text \<open>
  The node server validates a publish or unpublish request, runs the external image tool
  (\<^verbatim>\<open>/bin/buildah\<close>) and calls the host's mount utility. Everything outside the Go
  process (the spawned commands, the mount table, the file system) is a \<open>host\<close>: a
  record of functions that answer each call from the history of the calls made so far.
  Every function of the source takes the history and returns it extended by the calls it
  made, in the order it made them. Logging (\<^verbatim>\<open>glog\<close>) has no effect on results and is left
  out.
\<close>

subsection \<open>Errors\<close>

text \<open>The two gRPC codes the file uses with \<^verbatim>\<open>status.Error\<close>.\<close>

datatype code = InvalidArgument | Internal

text \<open>
  An error value returned by the \<^verbatim>\<open>os\<close> and \<^verbatim>\<open>mount\<close> packages: the source only asks
  \<^verbatim>\<open>os.IsNotExist(err)\<close> and \<^verbatim>\<open>err.Error()\<close> of it.
\<close>

datatype os_error = ErrNotExist string | ErrOther string

fun IsNotExist :: "os_error \<Rightarrow> bool" where
  "IsNotExist (ErrNotExist _) = True"
| "IsNotExist (ErrOther _) = False"

fun Error_text :: "os_error \<Rightarrow> string" where
  "Error_text (ErrNotExist m) = m"
| "Error_text (ErrOther m) = m"

text \<open>
  The errors a boundary call can return: a gRPC status built by \<^verbatim>\<open>status.Error\<close>, the
  package variable \<^verbatim>\<open>TimeoutError\<close>, the error of \<^verbatim>\<open>cmd.CombinedOutput\<close>, or an
  error of the mount utility handed on as it is.
\<close>

datatype error =
    Status code string
  | TimeoutError
  | ExecError string
  | OsError os_error

fun has_code :: "code \<Rightarrow> error \<Rightarrow> bool" where
  "has_code c (Status c' _) = (c = c')"
| "has_code _ _ = False"

subsection \<open>Requests\<close>

record MountVolume =
  fs_type :: string
  mount_flags :: "string list"

text \<open>A capability whose access type is not a mount has \<open>mount = None\<close>.\<close>

record VolumeCapability =
  mount :: "MountVolume option"

text \<open>A Go map may be \<^verbatim>\<open>nil\<close> (\<open>None\<close>); reading a key of a nil map, or a missing
  key, gives the empty string.\<close>

type_synonym go_map = "(string \<rightharpoonup> string) option"

definition index_map :: "go_map \<Rightarrow> string \<Rightarrow> string" where
  "index_map m k = (case m of None \<Rightarrow> [] | Some f \<Rightarrow> (case f k of None \<Rightarrow> [] | Some v \<Rightarrow> v))"

text \<open>Whether the key is in the map (the second result of \<^verbatim>\<open>v, ok := m[k]\<close>).\<close>

definition has_key :: "go_map \<Rightarrow> string \<Rightarrow> bool" where
  "has_key m k = (case m of None \<Rightarrow> False | Some f \<Rightarrow> f k \<noteq> None)"

record NodePublishVolumeRequest =
  volume_id :: string
  publish_context :: go_map
  target_path :: string
  volume_capability :: "VolumeCapability option"
  readonly :: bool
  volume_context :: go_map

record NodeUnpublishVolumeRequest =
  u_volume_id :: string
  u_target_path :: string

text \<open>The generated getters \<^verbatim>\<open>GetMount().GetFsType()\<close> and
  \<^verbatim>\<open>GetMount().GetMountFlags()\<close>: both accept a nil receiver.\<close>

definition GetMount :: "VolumeCapability option \<Rightarrow> MountVolume option" where
  "GetMount c = (case c of None \<Rightarrow> None | Some v \<Rightarrow> mount v)"

definition GetFsType :: "MountVolume option \<Rightarrow> string" where
  "GetFsType m = (case m of None \<Rightarrow> [] | Some v \<Rightarrow> fs_type v)"

definition GetMountFlags :: "MountVolume option \<Rightarrow> string list" where
  "GetMountFlags m = (case m of None \<Rightarrow> [] | Some v \<Rightarrow> mount_flags v)"

subsection \<open>The host\<close>

text \<open>
  What a spawned process does: its combined output, the error of
  \<^verbatim>\<open>CombinedOutput\<close> (\<open>None\<close> for exit status 0) and the time it ran, in the unit of
  \<^verbatim>\<open>time.Duration\<close>.
\<close>

record proc =
  proc_output :: string
  exec_err :: "string option"
  elapsed :: int

text \<open>The calls that leave the process, with their arguments.\<close>

datatype event =
    Exec string "string list"
  | IsLikelyNotMountPoint string
  | MkdirAll string nat
  | Mount string string string "string list"
  | Unmount string

record host =
  do_exec :: "event list \<Rightarrow> string \<Rightarrow> string list \<Rightarrow> proc"
  do_stat :: "event list \<Rightarrow> string \<Rightarrow> bool \<times> os_error option"
  do_mkdir :: "event list \<Rightarrow> string \<Rightarrow> nat \<Rightarrow> os_error option"
  do_mount :: "event list \<Rightarrow> string \<Rightarrow> string \<Rightarrow> string \<Rightarrow> string list \<Rightarrow> os_error option"
  do_unmount :: "event list \<Rightarrow> string \<Rightarrow> os_error option"

record nodeServer =
  Timeout :: int
  execPath :: string
  args :: "string list"

subsection \<open>strings.TrimSpace\<close>

text \<open>
  \<^verbatim>\<open>strings.TrimSpace\<close> of the Go standard library removes the leading and the trailing
  white space of a UTF-8 string, white space being \<^verbatim>\<open>unicode.IsSpace\<close>: the six ASCII
  characters below and the code points U+0085, U+00A0, U+1680, U+2000 to U+200A, U+2028,
  U+2029, U+202F, U+205F and U+3000. The decoder accepts only the shortest encoding of a
  code point, so a white-space rune is exactly one of the byte sequences listed here.
\<close>

definition asciiSpace :: "char \<Rightarrow> bool" where
  "asciiSpace c = (c \<in> set [CHR 0x09, CHR 0x0A, CHR 0x0B, CHR 0x0C, CHR 0x0D, CHR 0x20])"

definition spaceRunes :: "string list" where
  "spaceRunes =
     [[CHR 0xC2, CHR 0x85], [CHR 0xC2, CHR 0xA0], [CHR 0xE1, CHR 0x9A, CHR 0x80],
      [CHR 0xE2, CHR 0x80, CHR 0x80], [CHR 0xE2, CHR 0x80, CHR 0x81],
      [CHR 0xE2, CHR 0x80, CHR 0x82], [CHR 0xE2, CHR 0x80, CHR 0x83],
      [CHR 0xE2, CHR 0x80, CHR 0x84], [CHR 0xE2, CHR 0x80, CHR 0x85],
      [CHR 0xE2, CHR 0x80, CHR 0x86], [CHR 0xE2, CHR 0x80, CHR 0x87],
      [CHR 0xE2, CHR 0x80, CHR 0x88], [CHR 0xE2, CHR 0x80, CHR 0x89],
      [CHR 0xE2, CHR 0x80, CHR 0x8A], [CHR 0xE2, CHR 0x80, CHR 0xA8],
      [CHR 0xE2, CHR 0x80, CHR 0xA9], [CHR 0xE2, CHR 0x80, CHR 0xAF],
      [CHR 0xE2, CHR 0x81, CHR 0x9F], [CHR 0xE3, CHR 0x80, CHR 0x80]]"

text \<open>The width in bytes of a white-space rune at the front of \<open>s\<close>, 0 when there is none.\<close>

definition leadingSpace :: "string \<Rightarrow> nat" where
  "leadingSpace s =
     (case s of
        [] \<Rightarrow> 0
      | c # _ \<Rightarrow>
          if asciiSpace c then 1
          else (case find (\<lambda>w. take (length w) s = w) spaceRunes of
                  None \<Rightarrow> 0
                | Some w \<Rightarrow> length w))"

text \<open>The same at the end of \<open>s\<close>.\<close>

definition trailingSpace :: "string \<Rightarrow> nat" where
  "trailingSpace s =
     (if s = [] then 0
      else if asciiSpace (last s) then 1
      else (case find (\<lambda>w. length w \<le> length s \<and> drop (length s - length w) s = w) spaceRunes of
              None \<Rightarrow> 0
            | Some w \<Rightarrow> length w))"

function TrimLeft :: "string \<Rightarrow> string" where
  "TrimLeft s = (if leadingSpace s = 0 then s else TrimLeft (drop (leadingSpace s) s))"
  by pat_completeness auto
termination
proof (relation "measure length")
  fix s :: string
  assume "leadingSpace s \<noteq> 0"
  then have "s \<noteq> []" by (auto simp: leadingSpace_def)
  with \<open>leadingSpace s \<noteq> 0\<close>
  show "(drop (leadingSpace s) s, s) \<in> measure length" by simp
qed simp

function TrimRight :: "string \<Rightarrow> string" where
  "TrimRight s =
     (if trailingSpace s = 0 then s else TrimRight (take (length s - trailingSpace s) s))"
  by pat_completeness auto
termination
proof (relation "measure length")
  fix s :: string
  assume "trailingSpace s \<noteq> 0"
  then have "s \<noteq> []" by (auto simp: trailingSpace_def)
  with \<open>trailingSpace s \<noteq> 0\<close>
  show "(take (length s - trailingSpace s) s, s) \<in> measure length" by simp
qed simp

definition TrimSpace :: "string \<Rightarrow> string" where
  "TrimSpace s = TrimRight (TrimLeft s)"

subsection \<open>runCmd, setupVolume, unsetupVolume\<close>

text \<open>
  \<^verbatim>\<open>runCmd\<close> starts the command and, when \<^verbatim>\<open>ns.Timeout > 0\<close>, a timer that sets the
  flag \<^verbatim>\<open>timeout\<close> when it fires; the timer does not stop the command
  (\<^verbatim>\<open>// TODO: cmd.Stop()\<close>), so \<^verbatim>\<open>CombinedOutput\<close> returns when the process has ended.
  The flag is set when the process ran longer than the timeout. A nil byte slice is the
  empty string.
\<close>

definition runCmd ::
  "host \<Rightarrow> nodeServer \<Rightarrow> event list \<Rightarrow> string list \<Rightarrow> (string \<times> error option) \<times> event list" where
  "runCmd h ns tr args' =
     (let execPath' = execPath ns;
          p = do_exec h tr execPath' args';
          timeout = (Timeout ns > 0 \<and> Timeout ns < elapsed p);
          tr' = tr @ [Exec execPath' args']
      in case exec_err p of
           Some e \<Rightarrow>
             if timeout then (([], Some TimeoutError), tr')
             else ((proc_output p, Some (ExecError e)), tr')
         | None \<Rightarrow> ((proc_output p, None), tr'))"

definition setupVolume ::
  "host \<Rightarrow> nodeServer \<Rightarrow> event list \<Rightarrow> string \<Rightarrow> string \<Rightarrow> error option \<times> nodeServer \<times> event list" where
  "setupVolume h ns tr volumeId image' =
     (let args' = [''from'', ''--name'', volumeId, ''--pull'', image'];
          ns' = ns\<lparr>execPath := ''/bin/buildah''\<rparr>;
          ((output', err), tr') = runCmd h ns' tr args';
          provisionRoot = TrimSpace output'
      in (err, ns', tr'))"

definition unsetupVolume ::
  "host \<Rightarrow> nodeServer \<Rightarrow> event list \<Rightarrow> string \<Rightarrow> error option \<times> nodeServer \<times> event list" where
  "unsetupVolume h ns tr volumeId =
     (let args' = [''delete'', volumeId];
          ns' = ns\<lparr>execPath := ''/bin/buildah''\<rparr>;
          ((output', err), tr') = runCmd h ns' tr args';
          provisionRoot = TrimSpace output'
      in (err, ns', tr'))"

subsection \<open>NodePublishVolume\<close>

type_synonym result = "(error + unit) \<times> nodeServer \<times> event list"

text \<open>Lines 85 to 122: the part of \<^verbatim>\<open>NodePublishVolume\<close> after the mount-point query.
  The mode \<^verbatim>\<open>0750\<close> is 488.\<close>

definition publish_mount ::
  "host \<Rightarrow> nodeServer \<Rightarrow> event list \<Rightarrow> NodePublishVolumeRequest \<Rightarrow> bool \<Rightarrow> result" where
  "publish_mount h ns tr req notMnt =
     (if \<not> notMnt then (Inr (), ns, tr)
      else
        let targetPath = target_path req;
            fsType = GetFsType (GetMount (volume_capability req));
            deviceId = (if publish_context req \<noteq> None
                        then index_map (publish_context req) ''deviceID'' else []);
            readOnly = readonly req;
            volumeId = volume_id req;
            attrib = volume_context req;
            mountFlags = GetMountFlags (GetMount (volume_capability req));
            options = [''bind''] @ (if readOnly then [''ro''] else []);
            args' = [''mount'', volumeId];
            ns' = ns\<lparr>execPath := ''/bin/buildah''\<rparr>;
            ((output', err), tr') = runCmd h ns' tr args';
            provisionRoot = TrimSpace output';
            path = provisionRoot;
            tr'' = tr' @ [Mount path targetPath [] options]
        in (case do_mount h tr' path targetPath [] options of
              Some e \<Rightarrow> (Inl (OsError e), ns', tr'')
            | None \<Rightarrow> (Inr (), ns', tr'')))"

definition NodePublishVolume ::
  "host \<Rightarrow> nodeServer \<Rightarrow> event list \<Rightarrow> NodePublishVolumeRequest \<Rightarrow> result" where
  "NodePublishVolume h ns tr req =
     (if volume_capability req = None
      then (Inl (Status InvalidArgument ''Volume capability missing in request''), ns, tr)
      else if length (volume_id req) = 0
      then (Inl (Status InvalidArgument ''Volume ID missing in request''), ns, tr)
      else if length (target_path req) = 0
      then (Inl (Status InvalidArgument ''Target path missing in request''), ns, tr)
      else
        let image' = index_map (volume_context req) ''image'';
            (err, ns1, tr1) = setupVolume h ns tr (volume_id req) image'
        in (case err of
              Some e \<Rightarrow> (Inl e, ns1, tr1)
            | None \<Rightarrow>
                (let targetPath = target_path req;
                     (notMnt, serr) = do_stat h tr1 targetPath;
                     tr2 = tr1 @ [IsLikelyNotMountPoint targetPath]
                 in (case serr of
                       Some e \<Rightarrow>
                         (if IsNotExist e
                          then (case do_mkdir h tr2 targetPath 488 of
                                  Some e' \<Rightarrow>
                                    (Inl (Status Internal (Error_text e')), ns1,
                                     tr2 @ [MkdirAll targetPath 488])
                                | None \<Rightarrow>
                                    publish_mount h ns1 (tr2 @ [MkdirAll targetPath 488]) req True)
                          else (Inl (Status Internal (Error_text e)), ns1, tr2))
                     | None \<Rightarrow> publish_mount h ns1 tr2 req notMnt))))"

subsection \<open>NodeUnpublishVolume\<close>

text \<open>Lines 142 to 148: the unmount, made only when the target is a mount point.\<close>

definition unpublish_unmount ::
  "host \<Rightarrow> event list \<Rightarrow> NodeUnpublishVolumeRequest \<Rightarrow> bool \<Rightarrow> os_error option \<times> event list" where
  "unpublish_unmount h tr req notMnt =
     (if \<not> notMnt
      then (do_unmount h tr (u_target_path req), tr @ [Unmount (u_target_path req)])
      else (None, tr))"

definition NodeUnpublishVolume ::
  "host \<Rightarrow> nodeServer \<Rightarrow> event list \<Rightarrow> NodeUnpublishVolumeRequest \<Rightarrow> result" where
  "NodeUnpublishVolume h ns tr req =
     (if length (u_volume_id req) = 0
      then (Inl (Status InvalidArgument ''Volume ID missing in request''), ns, tr)
      else if length (u_target_path req) = 0
      then (Inl (Status InvalidArgument ''Target path missing in request''), ns, tr)
      else
        let targetPath = u_target_path req;
            volumeId = u_volume_id req;
            (notMnt, serr) = do_stat h tr targetPath;
            tr1 = tr @ [IsLikelyNotMountPoint targetPath]
        in (case serr of
              Some e \<Rightarrow> (Inl (Status Internal (Error_text e)), ns, tr1)
            | None \<Rightarrow>
                (let (uerr, tr2) = unpublish_unmount h tr1 req notMnt
                 in (case uerr of
                       Some e \<Rightarrow> (Inl (Status Internal (Error_text e)), ns, tr2)
                     | None \<Rightarrow>
                         (let (err, ns', tr') = unsetupVolume h ns tr2 volumeId
                          in (case err of
                                Some e \<Rightarrow> (Inl e, ns', tr')
                              | None \<Rightarrow> (Inr (), ns', tr')))))))"

subsection \<open>Reading a result\<close>

text \<open>The calls a boundary call added to the history \<open>tr\<close> it started from.\<close>

definition new_events :: "event list \<Rightarrow> result \<Rightarrow> event list" where
  "new_events tr res = drop (length tr) (snd (snd res))"

definition fails_with :: "code \<Rightarrow> result \<Rightarrow> bool" where
  "fails_with c res = (case fst res of Inl e \<Rightarrow> has_code c e | Inr _ \<Rightarrow> False)"

fun is_Mount :: "event \<Rightarrow> bool" where
  "is_Mount (Mount _ _ _ _) = True"
| "is_Mount _ = False"

definition mounts :: "event list \<Rightarrow> nat" where
  "mounts evs = length (filter is_Mount evs)"

text \<open>Two publish calls in a row with the same request.\<close>

definition publish_twice ::
  "host \<Rightarrow> nodeServer \<Rightarrow> event list \<Rightarrow> NodePublishVolumeRequest \<Rightarrow> result" where
  "publish_twice h ns tr req =
     (let (r1, ns1, tr1) = NodePublishVolume h ns tr req in NodePublishVolume h ns1 tr1 req)"

text \<open>The request \<open>req\<close> with another file-system type in its mount capability.\<close>

definition with_fs_type :: "string \<Rightarrow> NodePublishVolumeRequest \<Rightarrow> NodePublishVolumeRequest" where
  "with_fs_type f req =
     (case volume_capability req of
        None \<Rightarrow> req
      | Some c \<Rightarrow>
          (case mount c of
             None \<Rightarrow> req
           | Some m \<Rightarrow> req\<lparr>volume_capability := Some (c\<lparr>mount := Some (m\<lparr>fs_type := f\<rparr>)\<rparr>)\<rparr>))"

subsection \<open>What the specification says, where the code does otherwise\<close>

text \<open>The option list of the specification: the bind indicator, the read-only indicator
  when the request is read-only, then the mount flags of the capability.\<close>

definition spec_mount_options :: "NodePublishVolumeRequest \<Rightarrow> string list" where
  "spec_mount_options req =
     [''bind''] @ (if readonly req then [''ro''] else [])
       @ GetMountFlags (GetMount (volume_capability req))"

text \<open>The bind source of the specification: the trimmed output of the provisioning
  invocation \<^verbatim>\<open>from --name <volumeId> --pull <imageRef>\<close>.\<close>

definition spec_bind_source :: "host \<Rightarrow> event list \<Rightarrow> NodePublishVolumeRequest \<Rightarrow> string" where
  "spec_bind_source h tr req =
     TrimSpace (proc_output (do_exec h tr ''/bin/buildah''
       [''from'', ''--name'', volume_id req, ''--pull'',
        index_map (volume_context req) ''image'']))"

subsection \<open>Example hosts and requests\<close>

text \<open>A mount table replayed from the history: the last mount or unmount of a path
  decides.\<close>

definition mounted :: "event list \<Rightarrow> string \<Rightarrow> bool" where
  "mounted tr p =
     foldl (\<lambda>b e. case e of
                     Mount _ t _ _ \<Rightarrow> if t = p then True else b
                   | Unmount t \<Rightarrow> if t = p then False else b
                   | _ \<Rightarrow> b) False tr"

text \<open>An image tool that succeeds: \<^verbatim>\<open>from\<close> prints the container name, \<^verbatim>\<open>mount\<close> the
  root of the container, each followed by a newline.\<close>

definition demo_exec :: "event list \<Rightarrow> string \<Rightarrow> string list \<Rightarrow> proc" where
  "demo_exec tr path a =
     (if take 1 a = [''from'']
      then \<lparr>proc_output = ''vol-1'' @ [CHR 0x0A], exec_err = None, elapsed = 3\<rparr>
      else if take 1 a = [''mount'']
      then \<lparr>proc_output = ''/var/lib/containers/merged'' @ [CHR 0x0A],
            exec_err = None, elapsed = 1\<rparr>
      else \<lparr>proc_output = ''deleted'' @ [CHR 0x0A], exec_err = None, elapsed = 1\<rparr>)"

definition demo_host :: host where
  "demo_host =
     \<lparr>do_exec = demo_exec,
      do_stat = (\<lambda>tr p. (\<not> mounted tr p, None)),
      do_mkdir = (\<lambda>tr p m. None),
      do_mount = (\<lambda>tr s t f os. None),
      do_unmount = (\<lambda>tr p. None)\<rparr>"

text \<open>An image tool that runs for 5 time units and exits with status 1.\<close>

definition failing_host :: host where
  "failing_host =
     demo_host\<lparr>do_exec := (\<lambda>tr path a.
       \<lparr>proc_output = ''error'' @ [CHR 0x0A], exec_err = Some ''exit status 1'', elapsed = 5\<rparr>)\<rparr>"

text \<open>An image tool that runs for 5 time units and exits with status 0.\<close>

definition slow_host :: host where
  "slow_host =
     demo_host\<lparr>do_exec := (\<lambda>tr path a.
       \<lparr>proc_output = ''vol-1'' @ [CHR 0x0A], exec_err = None, elapsed = 5\<rparr>)\<rparr>"

text \<open>A host whose unmount fails.\<close>

definition busy_host :: host where
  "busy_host = demo_host\<lparr>do_unmount := (\<lambda>tr p. Some (ErrOther ''target is busy''))\<rparr>"

text \<open>A host on which no path exists: the mount-point query answers as the mount utility
  does when \<^verbatim>\<open>os.Stat\<close> fails, with \<^verbatim>\<open>true\<close> and the error.\<close>

definition missing_host :: host where
  "missing_host =
     demo_host\<lparr>do_stat := (\<lambda>tr p. (True, Some (ErrNotExist ''no such file or directory'')))\<rparr>"

definition demo_ns :: nodeServer where
  "demo_ns = \<lparr>Timeout = 0, execPath = [], args = []\<rparr>"

text \<open>A node server with a timeout of one time unit.\<close>

definition timed_ns :: nodeServer where
  "timed_ns = \<lparr>Timeout = 1, execPath = ''/bin/buildah'', args = []\<rparr>"

definition demo_req :: NodePublishVolumeRequest where
  "demo_req =
     \<lparr>volume_id = ''vol-1'', publish_context = None, target_path = ''/mnt/x'',
      volume_capability =
        Some \<lparr>mount = Some \<lparr>fs_type = ''ext4'', mount_flags = [''noexec'']\<rparr>\<rparr>,
      readonly = True, volume_context = Some [''image'' \<mapsto> ''repo/app:latest'']\<rparr>"

definition demo_unpublish :: NodeUnpublishVolumeRequest where
  "demo_unpublish = \<lparr>u_volume_id = ''vol-1'', u_target_path = ''/mnt/x''\<rparr>"

section \<open>Properties\<close>

subsection \<open>The shape of each function's result\<close>

lemma runCmd_trace: "snd (runCmd h ns tr a) = tr @ [Exec (execPath ns) a]"
  by (simp add: runCmd_def Let_def split: option.splits)

lemma runCmd_error:
  "snd (fst (runCmd h ns tr a)) = Some e \<Longrightarrow> e = TimeoutError \<or> (\<exists>m. e = ExecError m)"
  by (auto simp: runCmd_def Let_def split: option.splits if_splits)

lemma setupVolume_eq:
  "setupVolume h ns tr v i =
     (snd (fst (runCmd h (ns\<lparr>execPath := ''/bin/buildah''\<rparr>) tr
                  [''from'', ''--name'', v, ''--pull'', i])),
      ns\<lparr>execPath := ''/bin/buildah''\<rparr>,
      tr @ [Exec ''/bin/buildah'' [''from'', ''--name'', v, ''--pull'', i]])"
  using runCmd_trace [of h "ns\<lparr>execPath := ''/bin/buildah''\<rparr>" tr
      "[''from'', ''--name'', v, ''--pull'', i]"]
  by (simp add: setupVolume_def Let_def split_beta)

lemma unsetupVolume_eq:
  "unsetupVolume h ns tr v =
     (snd (fst (runCmd h (ns\<lparr>execPath := ''/bin/buildah''\<rparr>) tr [''delete'', v])),
      ns\<lparr>execPath := ''/bin/buildah''\<rparr>,
      tr @ [Exec ''/bin/buildah'' [''delete'', v]])"
  using runCmd_trace [of h "ns\<lparr>execPath := ''/bin/buildah''\<rparr>" tr "[''delete'', v]"]
  by (simp add: unsetupVolume_def Let_def split_beta)

lemma publish_mount_False: "publish_mount h ns tr req False = (Inr (), ns, tr)"
  by (simp add: publish_mount_def)

lemma publish_mount_True:
  "publish_mount h ns tr req True =
     (let nsb = ns\<lparr>execPath := ''/bin/buildah''\<rparr>;
          src = TrimSpace (fst (fst (runCmd h nsb tr [''mount'', volume_id req])));
          opts = ''bind'' # (if readonly req then [''ro''] else []);
          tr' = tr @ [Exec ''/bin/buildah'' [''mount'', volume_id req]]
      in ((case do_mount h tr' src (target_path req) [] opts of
             Some e \<Rightarrow> Inl (OsError e) | None \<Rightarrow> Inr ()),
          nsb, tr' @ [Mount src (target_path req) [] opts]))"
  using runCmd_trace [of h "ns\<lparr>execPath := ''/bin/buildah''\<rparr>" tr "[''mount'', volume_id req]"]
  by (simp add: publish_mount_def Let_def split_beta split: option.splits)

lemma publish_mount_event:
  assumes "Mount src tgt fs opts \<in> set (drop (length tr0) (snd (snd (publish_mount h ns (tr0 @ pre) req b))))"
    and "\<forall>e \<in> set pre. \<not> is_Mount e"
  shows "snd (snd (publish_mount h ns (tr0 @ pre) req b)) =
           (tr0 @ pre) @ [Exec ''/bin/buildah'' [''mount'', volume_id req], Mount src tgt fs opts]
         \<and> src = TrimSpace (fst (fst (runCmd h (ns\<lparr>execPath := ''/bin/buildah''\<rparr>) (tr0 @ pre)
                                          [''mount'', volume_id req])))
         \<and> tgt = target_path req \<and> fs = []
         \<and> opts = ''bind'' # (if readonly req then [''ro''] else [])"
proof (cases b)
  case False
  with assms show ?thesis by (auto simp: publish_mount_False)
next
  case True
  with assms show ?thesis by (auto simp: publish_mount_True Let_def)
qed

lemma NodePublishVolume_valid:
  assumes "volume_capability req \<noteq> None" "volume_id req \<noteq> []" "target_path req \<noteq> []"
  shows "NodePublishVolume h ns tr req =
     (let nsb = ns\<lparr>execPath := ''/bin/buildah''\<rparr>;
          fa = [''from'', ''--name'', volume_id req, ''--pull'',
                index_map (volume_context req) ''image''];
          tgt = target_path req;
          tr1 = tr @ [Exec ''/bin/buildah'' fa];
          tr2 = tr1 @ [IsLikelyNotMountPoint tgt];
          tr3 = tr2 @ [MkdirAll tgt 488]
      in (case snd (fst (runCmd h nsb tr fa)) of
            Some e \<Rightarrow> (Inl e, nsb, tr1)
          | None \<Rightarrow>
              (case snd (do_stat h tr1 tgt) of
                 None \<Rightarrow> publish_mount h nsb tr2 req (fst (do_stat h tr1 tgt))
               | Some e \<Rightarrow>
                   (if IsNotExist e
                    then (case do_mkdir h tr2 tgt 488 of
                            Some e' \<Rightarrow> (Inl (Status Internal (Error_text e')), nsb, tr3)
                          | None \<Rightarrow> publish_mount h nsb tr3 req True)
                    else (Inl (Status Internal (Error_text e)), nsb, tr2)))))"
  using assms
  by (auto simp: NodePublishVolume_def setupVolume_eq Let_def split_beta
      split: option.splits)

lemma NodePublishVolume_invalid:
  assumes "volume_capability req = None \<or> volume_id req = [] \<or> target_path req = []"
  shows "snd (snd (NodePublishVolume h ns tr req)) = tr"
    and "fails_with InvalidArgument (NodePublishVolume h ns tr req)"
  using assms by (auto simp: NodePublishVolume_def fails_with_def)

lemma NodePublishVolume_Mount_event:
  assumes "Mount src tgt fs opts \<in> set (new_events tr (NodePublishVolume h ns tr req))"
  shows "\<exists>pre. snd (snd (NodePublishVolume h ns tr req)) =
                 pre @ [Exec ''/bin/buildah'' [''mount'', volume_id req], Mount src tgt fs opts]
             \<and> src = TrimSpace (fst (fst (runCmd h (ns\<lparr>execPath := ''/bin/buildah''\<rparr>) pre
                                              [''mount'', volume_id req])))
             \<and> tgt = target_path req \<and> fs = []
             \<and> opts = ''bind'' # (if readonly req then [''ro''] else [])"
proof -
  let ?fa = "[''from'', ''--name'', volume_id req, ''--pull'', index_map (volume_context req) ''image'']"
  let ?e1 = "[Exec ''/bin/buildah'' ?fa, IsLikelyNotMountPoint (target_path req)]"
  let ?e2 = "?e1 @ [MkdirAll (target_path req) 488]"
  let ?nsb = "ns\<lparr>execPath := ''/bin/buildah''\<rparr>"
  have "\<not> (volume_capability req = None \<or> volume_id req = [] \<or> target_path req = [])"
  proof
    assume "volume_capability req = None \<or> volume_id req = [] \<or> target_path req = []"
    from NodePublishVolume_invalid(1) [OF this, of h ns tr] assms
    show False by (simp add: new_events_def)
  qed
  then have valid:
    "volume_capability req \<noteq> None" "volume_id req \<noteq> []" "target_path req \<noteq> []"
    by simp_all
  from assms consider
      (a) b where "NodePublishVolume h ns tr req = publish_mount h ?nsb (tr @ ?e1) req b"
    | (b) "NodePublishVolume h ns tr req = publish_mount h ?nsb (tr @ ?e2) req True"
    unfolding NodePublishVolume_valid [OF valid] new_events_def Let_def
    by (auto split: option.splits if_splits)
  then show ?thesis
  proof cases
    case a
    have nm: "\<forall>e \<in> set ?e1. \<not> is_Mount e" by simp
    from assms a
    have "Mount src tgt fs opts \<in> set (drop (length tr) (snd (snd (publish_mount h ?nsb (tr @ ?e1) req b))))"
      by (simp add: new_events_def)
    from publish_mount_event [OF this nm] a show ?thesis by auto
  next
    case b
    have nm: "\<forall>e \<in> set ?e2. \<not> is_Mount e" by simp
    from assms b
    have "Mount src tgt fs opts \<in> set (drop (length tr) (snd (snd (publish_mount h ?nsb (tr @ ?e2) req True))))"
      by (simp add: new_events_def)
    from publish_mount_event [OF this nm] b show ?thesis by auto
  qed
qed

subsection \<open>The example host evaluated\<close>

lemma trim_root: "TrimSpace (''/var/lib/containers/merged'' @ [CHR 0x0A]) = ''/var/lib/containers/merged''"
  by code_simp

lemma trim_name: "TrimSpace (''vol-1'' @ [CHR 0x0A]) = ''vol-1''"
  by code_simp

lemmas demo_defs = demo_host_def demo_exec_def demo_ns_def demo_req_def demo_unpublish_def
  failing_host_def slow_host_def busy_host_def missing_host_def mounted_def timed_ns_def

lemma demo_publish:
  "NodePublishVolume demo_host demo_ns [] demo_req =
     (Inr (), demo_ns\<lparr>execPath := ''/bin/buildah''\<rparr>,
      [Exec ''/bin/buildah'' [''from'', ''--name'', ''vol-1'', ''--pull'', ''repo/app:latest''],
       IsLikelyNotMountPoint ''/mnt/x'',
       Exec ''/bin/buildah'' [''mount'', ''vol-1''],
       Mount ''/var/lib/containers/merged'' ''/mnt/x'' [] [''bind'', ''ro'']])"
  using trim_root
  by (simp add: NodePublishVolume_def setupVolume_eq publish_mount_True publish_mount_False
      runCmd_def index_map_def Let_def demo_defs)

subsection \<open>Errors and first call of a valid publish request\<close>

lemma publish_mount_error:
  "fst (publish_mount h ns tr req b) = Inl e \<Longrightarrow> \<exists>oe. e = OsError oe"
  by (cases b) (auto simp: publish_mount_True publish_mount_False Let_def split: option.splits)

lemma publish_mount_capability:
  "publish_mount h ns tr (req\<lparr>volume_capability := vc\<rparr>) b = publish_mount h ns tr req b"
  by (simp add: publish_mount_def Let_def)

lemma publish_mount_extends:
  "\<exists>evs. snd (snd (publish_mount h ns tr req b)) = tr @ evs"
  by (cases b) (simp_all add: publish_mount_True publish_mount_False Let_def)

lemma publish_mount_first:
  "take (Suc 0) (drop (length tr) (snd (snd (publish_mount h ns (tr @ e # es) req b)))) = [e]"
  using publish_mount_extends [of h ns "tr @ e # es" req b] by auto

lemma NodePublishVolume_valid_code:
  assumes "volume_capability req \<noteq> None" "volume_id req \<noteq> []" "target_path req \<noteq> []"
  shows "\<not> fails_with InvalidArgument (NodePublishVolume h ns tr req)"
  using assms runCmd_error [of h "ns\<lparr>execPath := ''/bin/buildah''\<rparr>" tr
      "[''from'', ''--name'', volume_id req, ''--pull'', index_map (volume_context req) ''image'']"]
  by (auto simp: NodePublishVolume_def setupVolume_eq fails_with_def Let_def
      split: option.splits prod.splits sum.splits dest!: publish_mount_error)

lemma NodePublishVolume_valid_first:
  assumes "volume_capability req \<noteq> None" "volume_id req \<noteq> []" "target_path req \<noteq> []"
  shows "take 1 (new_events tr (NodePublishVolume h ns tr req)) =
     [Exec ''/bin/buildah'' [''from'', ''--name'', volume_id req, ''--pull'', index_map (volume_context req) ''image'']]"
  using assms
  unfolding NodePublishVolume_valid [OF assms] new_events_def Let_def
  by (auto simp: publish_mount_first split: option.splits)

lemma with_fs_type_same:
  "NodePublishVolume h ns tr (with_fs_type f req) = NodePublishVolume h ns tr req"
  by (auto simp: with_fs_type_def NodePublishVolume_def publish_mount_capability Let_def
      setupVolume_eq split_beta split: option.splits)

text \<open>Which error \<^verbatim>\<open>runCmd\<close> returns: there is one exactly when the process ended with
  an error, and it is the Timeout error exactly when the timer had fired by then.\<close>

lemma runCmd_which_error:
  "snd (fst (runCmd h ns tr a)) =
     (case exec_err (do_exec h tr (execPath ns) a) of
        None \<Rightarrow> None
      | Some m \<Rightarrow>
          Some (if 0 < Timeout ns \<and> Timeout ns < elapsed (do_exec h tr (execPath ns) a)
                then TimeoutError else ExecError m))"
  by (auto simp: runCmd_def Let_def split: option.splits)

text \<open>When the process ends with an error after the timer has fired, \<^verbatim>\<open>runCmd\<close>
  returns the Timeout error and no output.\<close>

lemma runCmd_timeout_failure:
  assumes "0 < Timeout ns" and "Timeout ns < elapsed (do_exec h tr (execPath ns) a)"
    and "exec_err (do_exec h tr (execPath ns) a) \<noteq> None"
  shows "fst (runCmd h ns tr a) = ([], Some TimeoutError)"
  using assms by (auto simp: runCmd_def Let_def split: option.splits)

lemma NodeUnpublishVolume_valid:
  assumes "u_volume_id req \<noteq> []" "u_target_path req \<noteq> []"
    and "do_stat h tr (u_target_path req) = (notMnt, None)"
  shows "NodeUnpublishVolume h ns tr req =
     (let nsb = ns\<lparr>execPath := ''/bin/buildah''\<rparr>;
          tgt = u_target_path req;
          tr1 = tr @ [IsLikelyNotMountPoint tgt];
          tr2 = (if notMnt then tr1 else tr1 @ [Unmount tgt]);
          del = [''delete'', u_volume_id req]
      in (case (if notMnt then None else do_unmount h tr1 tgt) of
            Some e \<Rightarrow> (Inl (Status Internal (Error_text e)), ns, tr2)
          | None \<Rightarrow>
              ((case snd (fst (runCmd h nsb tr2 del)) of Some e \<Rightarrow> Inl e | None \<Rightarrow> Inr ()),
               nsb, tr2 @ [Exec ''/bin/buildah'' del])))"
  using assms
  by (auto simp: NodeUnpublishVolume_def unpublish_unmount_def unsetupVolume_eq Let_def
      split: option.splits)

text \<open>A failed mount-point query (a missing target path, for one) ends the unpublish call
  with an Internal status before any unmount or release.\<close>

lemma NodeUnpublishVolume_query_fails:
  assumes "u_volume_id req \<noteq> []" "u_target_path req \<noteq> []"
    and "do_stat h tr (u_target_path req) = (notMnt, Some e)"
  shows "NodeUnpublishVolume h ns tr req =
     (Inl (Status Internal (Error_text e)), ns, tr @ [IsLikelyNotMountPoint (u_target_path req)])"
  using assms by (simp add: NodeUnpublishVolume_def Let_def)

lemma NodePublishVolume_mounted:
  assumes "volume_capability req \<noteq> None" "volume_id req \<noteq> []" "target_path req \<noteq> []"
    and "do_stat h (tr @ [Exec ''/bin/buildah'' [''from'', ''--name'', volume_id req, ''--pull'',
            index_map (volume_context req) ''image'']]) (target_path req) = (False, None)"
  shows "NodePublishVolume h ns tr req =
     (case fst (setupVolume h ns tr (volume_id req) (index_map (volume_context req) ''image'')) of
        Some e \<Rightarrow>
          (Inl e, ns\<lparr>execPath := ''/bin/buildah''\<rparr>,
           tr @ [Exec ''/bin/buildah'' [''from'', ''--name'', volume_id req, ''--pull'',
                   index_map (volume_context req) ''image'']])
      | None \<Rightarrow>
          (Inr (), ns\<lparr>execPath := ''/bin/buildah''\<rparr>,
           tr @ [Exec ''/bin/buildah'' [''from'', ''--name'', volume_id req, ''--pull'',
                   index_map (volume_context req) ''image''],
                 IsLikelyNotMountPoint (target_path req)]))"
  unfolding NodePublishVolume_valid [OF assms(1-3)] Let_def
  using assms(4)
  by (auto simp: setupVolume_eq publish_mount_False split: option.splits)

lemma publish_mount_mounts:
  assumes "\<forall>e \<in> set pre. \<not> is_Mount e"
  shows "\<exists>evs. snd (snd (publish_mount h ns (tr @ pre) req b)) = tr @ evs \<and> mounts evs \<le> 1"
  using assms
  by (cases b)
    (simp_all add: publish_mount_True publish_mount_False Let_def mounts_def filter_empty_conv)

lemma NodePublishVolume_extends:
  "\<exists>evs. snd (snd (NodePublishVolume h ns tr req)) = tr @ evs \<and> mounts evs \<le> 1"
proof (cases "volume_capability req = None \<or> volume_id req = [] \<or> target_path req = []")
  case True
  from NodePublishVolume_invalid(1) [OF this, of h ns tr] show ?thesis
    by (simp add: mounts_def)
next
  case False
  then have valid:
    "volume_capability req \<noteq> None" "volume_id req \<noteq> []" "target_path req \<noteq> []"
    by simp_all
  let ?fa = "[''from'', ''--name'', volume_id req, ''--pull'', index_map (volume_context req) ''image'']"
  let ?e1 = "[Exec ''/bin/buildah'' ?fa, IsLikelyNotMountPoint (target_path req)]"
  let ?e2 = "[Exec ''/bin/buildah'' ?fa, IsLikelyNotMountPoint (target_path req),
              MkdirAll (target_path req) 488]"
  let ?nsb = "ns\<lparr>execPath := ''/bin/buildah''\<rparr>"
  have p1: "\<exists>evs. snd (snd (publish_mount h ?nsb (tr @ ?e1) req b)) = tr @ evs \<and> mounts evs \<le> 1"
    for b by (rule publish_mount_mounts) simp
  have p2: "\<exists>evs. snd (snd (publish_mount h ?nsb (tr @ ?e2) req b)) = tr @ evs \<and> mounts evs \<le> 1"
    for b by (rule publish_mount_mounts) simp
  show ?thesis
    unfolding NodePublishVolume_valid [OF valid] Let_def
    using p1 p2 by (auto simp: mounts_def split: option.splits)
qed

text \<open>
  Two publish calls in a row: when the second finds the target mounted, the two calls
  together make as many bind mounts as the first alone, and that is at most one.
\<close>

lemma publish_twice_mounts:
  assumes "volume_capability req \<noteq> None" "volume_id req \<noteq> []" "target_path req \<noteq> []"
    and "do_stat h (snd (snd (NodePublishVolume h ns tr req)) @
            [Exec ''/bin/buildah'' [''from'', ''--name'', volume_id req, ''--pull'',
               index_map (volume_context req) ''image'']]) (target_path req) = (False, None)"
  shows "mounts (new_events tr (publish_twice h ns tr req)) =
           mounts (new_events tr (NodePublishVolume h ns tr req))
         \<and> mounts (new_events tr (publish_twice h ns tr req)) \<le> 1"
proof -
  obtain r1 ns1 tr1 where first: "NodePublishVolume h ns tr req = (r1, ns1, tr1)"
    by (cases "NodePublishVolume h ns tr req") auto
  from NodePublishVolume_extends [of h ns tr req] first obtain evs
    where evs: "tr1 = tr @ evs" "mounts evs \<le> 1"
    by auto
  from assms(4) first have m: "do_stat h (tr1 @
            [Exec ''/bin/buildah'' [''from'', ''--name'', volume_id req, ''--pull'',
               index_map (volume_context req) ''image'']]) (target_path req) = (False, None)"
    by simp
  from NodePublishVolume_mounted [OF assms(1-3) m, of ns1]
  have "mounts (drop (length tr1) (snd (snd (NodePublishVolume h ns1 tr1 req)))) = 0"
    by (simp add: mounts_def split: option.splits)
  moreover from NodePublishVolume_extends [of h ns1 tr1 req] obtain evs2
    where evs2: "snd (snd (NodePublishVolume h ns1 tr1 req)) = tr1 @ evs2"
    by blast
  ultimately have "mounts evs2 = 0" by simp
  with first evs evs2 show ?thesis
    by (simp add: publish_twice_def new_events_def mounts_def)
qed

subsection \<open>The claims\<close>

text \<open>
  C1, as amended: for every publish call that performs a bind mount, the option list of the
  mount is the bind indicator, followed by the read-only indicator exactly when the request
  is read-only, and nothing else: the mount flags of the capability are read but not
  appended.
\<close>

theorem publish_mount_options:
  "Mount src tgt fs opts \<in> set (new_events tr (NodePublishVolume h ns tr req))
   \<Longrightarrow> opts = ''bind'' # (if readonly req then [''ro''] else [])"
  using NodePublishVolume_Mount_event [of src tgt fs opts tr h ns req] by blast

theorem publish_mount_options_witness:
  "Mount ''/var/lib/containers/merged'' ''/mnt/x'' [] [''bind'', ''ro'']
     \<in> set (new_events [] (NodePublishVolume demo_host demo_ns [] demo_req))
   \<and> [''bind'', ''ro''] = ''bind'' # (if readonly demo_req then [''ro''] else [])"
proof -
  have h: "Mount ''/var/lib/containers/merged'' ''/mnt/x'' [] [''bind'', ''ro'']
     \<in> set (new_events [] (NodePublishVolume demo_host demo_ns [] demo_req))"
    by (simp add: demo_publish new_events_def)
  from h publish_mount_options [OF h] show ?thesis by simp
qed

text \<open>
  C1 as the specification states it fails: the request carries the mount flag
  \<^verbatim>\<open>noexec\<close>, the specification's option list ends with it, the mount is made without
  it.
\<close>

theorem publish_mount_flags_counterexample:
  "new_events [] (NodePublishVolume demo_host demo_ns [] demo_req) =
     [Exec ''/bin/buildah'' [''from'', ''--name'', ''vol-1'', ''--pull'', ''repo/app:latest''],
      IsLikelyNotMountPoint ''/mnt/x'',
      Exec ''/bin/buildah'' [''mount'', ''vol-1''],
      Mount ''/var/lib/containers/merged'' ''/mnt/x'' [] [''bind'', ''ro'']]
   \<and> spec_mount_options demo_req = [''bind'', ''ro'', ''noexec'']
   \<and> spec_mount_options demo_req \<noteq> [''bind'', ''ro'']"
proof -
  have "spec_mount_options demo_req = [''bind'', ''ro'', ''noexec'']"
    by (simp add: spec_mount_options_def demo_req_def GetMount_def GetMountFlags_def)
  then show ?thesis by (simp add: demo_publish new_events_def)
qed

text \<open>
  C2 at the failing input: the timeout is 1, the process runs for 5 and exits with
  status 0. The timer has expired before the process completes, and \<^verbatim>\<open>runCmd\<close>
  returns the output with no error instead of the Timeout error.
\<close>

theorem runCmd_timeout_exit0:
  "runCmd slow_host timed_ns [] [''delete'', ''vol-1''] =
     ((''vol-1'' @ [CHR 0x0A], None), [Exec ''/bin/buildah'' [''delete'', ''vol-1'']])
   \<and> 0 < Timeout timed_ns
   \<and> Timeout timed_ns < elapsed (do_exec slow_host [] ''/bin/buildah'' [''delete'', ''vol-1''])"
  by (simp add: runCmd_def Let_def demo_defs)

text \<open>
  C3, as amended: for every valid publish request whose target path is reported as a
  mount point, the provisioning command is run first; the call then adds no bind mount, no
  directory creation and no \<^verbatim>\<open>mount\<close> invocation of the tool, and it returns success
  when the provisioning command succeeds and that command's error otherwise. This holds
  from any history, so a second publish in a row that finds the target mounted adds no bind
  mount to those of the first.
\<close>

theorem publish_already_mounted:
  assumes "volume_capability req \<noteq> None" "volume_id req \<noteq> []" "target_path req \<noteq> []"
    and "do_stat h (tr @ [Exec ''/bin/buildah'' [''from'', ''--name'', volume_id req, ''--pull'',
            index_map (volume_context req) ''image'']]) (target_path req) = (False, None)"
  shows "NodePublishVolume h ns tr req =
     (case fst (setupVolume h ns tr (volume_id req) (index_map (volume_context req) ''image'')) of
        Some e \<Rightarrow>
          (Inl e, ns\<lparr>execPath := ''/bin/buildah''\<rparr>,
           tr @ [Exec ''/bin/buildah'' [''from'', ''--name'', volume_id req, ''--pull'',
                   index_map (volume_context req) ''image'']])
      | None \<Rightarrow>
          (Inr (), ns\<lparr>execPath := ''/bin/buildah''\<rparr>,
           tr @ [Exec ''/bin/buildah'' [''from'', ''--name'', volume_id req, ''--pull'',
                   index_map (volume_context req) ''image''],
                 IsLikelyNotMountPoint (target_path req)]))
     \<and> mounts (new_events tr (NodePublishVolume h ns tr req)) = 0"
  using NodePublishVolume_mounted [OF assms, of ns]
  by (simp add: new_events_def mounts_def split: option.splits)


theorem publish_already_mounted_witness:
  "publish_twice demo_host demo_ns [] demo_req =
   (Inr (), demo_ns\<lparr>execPath := ''/bin/buildah''\<rparr>,
     [Exec ''/bin/buildah'' [''from'', ''--name'', ''vol-1'', ''--pull'', ''repo/app:latest''],
      IsLikelyNotMountPoint ''/mnt/x'',
      Exec ''/bin/buildah'' [''mount'', ''vol-1''],
      Mount ''/var/lib/containers/merged'' ''/mnt/x'' [] [''bind'', ''ro''],
      Exec ''/bin/buildah'' [''from'', ''--name'', ''vol-1'', ''--pull'', ''repo/app:latest''],
      IsLikelyNotMountPoint ''/mnt/x''])
   \<and> mounts (new_events [] (publish_twice demo_host demo_ns [] demo_req)) = 1"
proof -
  let ?ns1 = "demo_ns\<lparr>execPath := ''/bin/buildah''\<rparr>"
  let ?tr1 = "[Exec ''/bin/buildah'' [''from'', ''--name'', ''vol-1'', ''--pull'', ''repo/app:latest''],
      IsLikelyNotMountPoint ''/mnt/x'',
      Exec ''/bin/buildah'' [''mount'', ''vol-1''],
      Mount ''/var/lib/containers/merged'' ''/mnt/x'' [] [''bind'', ''ro'']]"
  have v: "volume_capability demo_req \<noteq> None" "volume_id demo_req \<noteq> []"
    "target_path demo_req \<noteq> []"
    by (simp_all add: demo_req_def)
  have m: "do_stat demo_host (?tr1 @ [Exec ''/bin/buildah'' [''from'', ''--name'',
      volume_id demo_req, ''--pull'', index_map (volume_context demo_req) ''image'']])
      (target_path demo_req) = (False, None)"
    by (simp add: demo_defs)
  have s: "fst (setupVolume demo_host ?ns1 ?tr1 (volume_id demo_req)
      (index_map (volume_context demo_req) ''image'')) = None"
    by (simp add: setupVolume_eq runCmd_def Let_def demo_defs)
  have f: "volume_id demo_req = ''vol-1''" "target_path demo_req = ''/mnt/x''"
    "index_map (volume_context demo_req) ''image'' = ''repo/app:latest''"
    by (simp_all add: demo_req_def index_map_def)
  from publish_already_mounted [OF v m, of ?ns1] s f
  show ?thesis
    by (simp add: publish_twice_def demo_publish new_events_def mounts_def)
qed

text \<open>
  C3 as the specification states it fails: the target is a mount point, the provisioning
  command fails, and the call returns that error instead of success.
\<close>

theorem publish_mounted_counterexample:
  "do_stat failing_host
     [Mount ''/var/lib/containers/merged'' ''/mnt/x'' [] [''bind''],
      Exec ''/bin/buildah'' [''from'', ''--name'', ''vol-1'', ''--pull'', ''repo/app:latest'']]
     ''/mnt/x'' = (False, None)
   \<and> NodePublishVolume failing_host demo_ns
     [Mount ''/var/lib/containers/merged'' ''/mnt/x'' [] [''bind'']] demo_req =
   (Inl (ExecError ''exit status 1''), demo_ns\<lparr>execPath := ''/bin/buildah''\<rparr>,
    [Mount ''/var/lib/containers/merged'' ''/mnt/x'' [] [''bind''],
     Exec ''/bin/buildah'' [''from'', ''--name'', ''vol-1'', ''--pull'', ''repo/app:latest'']])
   \<and> fst (NodePublishVolume failing_host demo_ns
     [Mount ''/var/lib/containers/merged'' ''/mnt/x'' [] [''bind'']] demo_req) \<noteq> Inr ()"
  by (simp add: NodePublishVolume_def setupVolume_eq runCmd_def index_map_def Let_def demo_defs)

text \<open>
  C4, as amended: for every valid publish request, if the provisioning step fails then the
  process of the provisioning command has ended with an error, and the boundary call fails
  with the error of that step unchanged: the Timeout error when the timeout is positive and
  the process ran longer than it, the error of the process otherwise. It is neither an
  InvalidArgument nor an Internal status, and nothing but the provisioning command has been
  run.
\<close>

theorem publish_provision_failure:
  assumes "volume_capability req \<noteq> None" "volume_id req \<noteq> []" "target_path req \<noteq> []"
    and "fst (setupVolume h ns tr (volume_id req) (index_map (volume_context req) ''image''))
           = Some e"
  shows "NodePublishVolume h ns tr req =
           (Inl e, ns\<lparr>execPath := ''/bin/buildah''\<rparr>,
            tr @ [Exec ''/bin/buildah'' [''from'', ''--name'', volume_id req, ''--pull'',
                    index_map (volume_context req) ''image'']])
         \<and> (e = TimeoutError \<or> (\<exists>m. e = ExecError m))
         \<and> \<not> has_code Internal e \<and> \<not> has_code InvalidArgument e
         \<and> (\<exists>m. exec_err (do_exec h tr ''/bin/buildah''
                     [''from'', ''--name'', volume_id req, ''--pull'',
                      index_map (volume_context req) ''image'']) = Some m
               \<and> e = (if 0 < Timeout ns
                          \<and> Timeout ns < elapsed (do_exec h tr ''/bin/buildah''
                                [''from'', ''--name'', volume_id req, ''--pull'',
                                 index_map (volume_context req) ''image''])
                       then TimeoutError else ExecError m))"
proof -
  let ?fa = "[''from'', ''--name'', volume_id req, ''--pull'',
              index_map (volume_context req) ''image'']"
  let ?nsb = "ns\<lparr>execPath := ''/bin/buildah''\<rparr>"
  from assms(4) have r: "snd (fst (runCmd h ?nsb tr ?fa)) = Some e"
    by (simp add: setupVolume_eq)
  from runCmd_error [OF r] have k: "e = TimeoutError \<or> (\<exists>m. e = ExecError m)" .
  then have c: "\<not> has_code Internal e \<and> \<not> has_code InvalidArgument e" by auto
  from r have w: "\<exists>m. exec_err (do_exec h tr ''/bin/buildah'' ?fa) = Some m
      \<and> e = (if 0 < Timeout ns \<and> Timeout ns < elapsed (do_exec h tr ''/bin/buildah'' ?fa)
             then TimeoutError else ExecError m)"
    unfolding runCmd_which_error by (auto split: option.splits)
  have "NodePublishVolume h ns tr req = (Inl e, ?nsb, tr @ [Exec ''/bin/buildah'' ?fa])"
    using r unfolding NodePublishVolume_valid [OF assms(1-3)] Let_def by simp
  with k c w show ?thesis by blast
qed

theorem publish_provision_failure_witness:
  "NodePublishVolume failing_host demo_ns [] demo_req =
     (Inl (ExecError ''exit status 1''), demo_ns\<lparr>execPath := ''/bin/buildah''\<rparr>,
      [Exec ''/bin/buildah'' [''from'', ''--name'', ''vol-1'', ''--pull'', ''repo/app:latest'']])
   \<and> \<not> has_code Internal (ExecError ''exit status 1'')
   \<and> \<not> (0 < Timeout demo_ns)
   \<and> fst (NodePublishVolume failing_host timed_ns [] demo_req) = Inl TimeoutError
   \<and> 0 < Timeout timed_ns
   \<and> Timeout timed_ns < elapsed (do_exec failing_host [] ''/bin/buildah''
        [''from'', ''--name'', ''vol-1'', ''--pull'', ''repo/app:latest''])"
proof -
  have v: "volume_capability demo_req \<noteq> None" "volume_id demo_req \<noteq> []"
    "target_path demo_req \<noteq> []"
    by (simp_all add: demo_req_def)
  have s: "fst (setupVolume failing_host demo_ns [] (volume_id demo_req)
      (index_map (volume_context demo_req) ''image'')) = Some (ExecError ''exit status 1'')"
    by (simp add: setupVolume_eq runCmd_def Let_def demo_defs)
  have t: "fst (setupVolume failing_host timed_ns [] (volume_id demo_req)
      (index_map (volume_context demo_req) ''image'')) = Some TimeoutError"
    by (simp add: setupVolume_eq runCmd_def Let_def demo_defs)
  have f: "volume_id demo_req = ''vol-1''"
    "index_map (volume_context demo_req) ''image'' = ''repo/app:latest''"
    by (simp_all add: demo_req_def index_map_def)
  have d: "\<not> (0 < Timeout demo_ns)" "0 < Timeout timed_ns"
    "Timeout timed_ns < elapsed (do_exec failing_host [] ''/bin/buildah''
        [''from'', ''--name'', ''vol-1'', ''--pull'', ''repo/app:latest''])"
    by (simp_all add: demo_defs)
  from publish_provision_failure [OF v s] publish_provision_failure [OF v t] f d
  show ?thesis by simp
qed

text \<open>
  C4 as the specification states it fails: with a timeout of 1 and a provisioning command
  that runs for 5 and exits with status 1, the boundary call returns the Timeout error
  itself, which is not of the Internal class.
\<close>

theorem publish_timeout_counterexample:
  "NodePublishVolume failing_host timed_ns [] demo_req =
     (Inl TimeoutError, timed_ns,
      [Exec ''/bin/buildah'' [''from'', ''--name'', ''vol-1'', ''--pull'', ''repo/app:latest'']])
   \<and> \<not> fails_with Internal (NodePublishVolume failing_host timed_ns [] demo_req)"
  by (simp add: NodePublishVolume_def setupVolume_eq runCmd_def index_map_def Let_def
      fails_with_def demo_defs)


text \<open>
  C5, as amended: for every publish call that performs a bind mount, the source path of the
  mount is the white-space-trimmed combined output that \<^verbatim>\<open>runCmd\<close> returns for the
  invocation \<^verbatim>\<open>mount <volumeId>\<close> of the image tool, which is the call made just before the
  mount; the output of the provisioning invocation is not used.
\<close>

theorem publish_mount_source:
  "Mount src tgt fs opts \<in> set (new_events tr (NodePublishVolume h ns tr req))
   \<Longrightarrow> \<exists>pre. snd (snd (NodePublishVolume h ns tr req)) =
               pre @ [Exec ''/bin/buildah'' [''mount'', volume_id req], Mount src tgt fs opts]
           \<and> src = TrimSpace (fst (fst (runCmd h (ns\<lparr>execPath := ''/bin/buildah''\<rparr>) pre
                                            [''mount'', volume_id req])))"
  using NodePublishVolume_Mount_event [of src tgt fs opts tr h ns req] by blast

theorem publish_mount_source_witness:
  "Mount ''/var/lib/containers/merged'' ''/mnt/x'' [] [''bind'', ''ro'']
     \<in> set (new_events [] (NodePublishVolume demo_host demo_ns [] demo_req))
   \<and> (\<exists>pre. snd (snd (NodePublishVolume demo_host demo_ns [] demo_req)) =
               pre @ [Exec ''/bin/buildah'' [''mount'', volume_id demo_req],
                      Mount ''/var/lib/containers/merged'' ''/mnt/x'' [] [''bind'', ''ro'']]
           \<and> ''/var/lib/containers/merged'' =
               TrimSpace (fst (fst (runCmd demo_host (demo_ns\<lparr>execPath := ''/bin/buildah''\<rparr>) pre
                                            [''mount'', volume_id demo_req]))))"
proof -
  have h: "Mount ''/var/lib/containers/merged'' ''/mnt/x'' [] [''bind'', ''ro'']
     \<in> set (new_events [] (NodePublishVolume demo_host demo_ns [] demo_req))"
    by (simp add: demo_publish new_events_def)
  from h publish_mount_source [OF h] show ?thesis by blast
qed

text \<open>
  C5 as the specification states it fails: the provisioning invocation prints
  \<^verbatim>\<open>vol-1\<close>, the \<^verbatim>\<open>mount\<close> invocation prints the root of the container, and the bind
  mount takes the second.
\<close>

theorem publish_source_counterexample:
  "new_events [] (NodePublishVolume demo_host demo_ns [] demo_req) =
     [Exec ''/bin/buildah'' [''from'', ''--name'', ''vol-1'', ''--pull'', ''repo/app:latest''],
      IsLikelyNotMountPoint ''/mnt/x'',
      Exec ''/bin/buildah'' [''mount'', ''vol-1''],
      Mount ''/var/lib/containers/merged'' ''/mnt/x'' [] [''bind'', ''ro'']]
   \<and> spec_bind_source demo_host [] demo_req = ''vol-1''
   \<and> spec_bind_source demo_host [] demo_req \<noteq> ''/var/lib/containers/merged''"
proof -
  have "spec_bind_source demo_host [] demo_req = ''vol-1''"
    using trim_name by (simp add: spec_bind_source_def index_map_def demo_defs)
  then show ?thesis by (simp add: demo_publish new_events_def)
qed

text \<open>
  C6: a publish request without volume capability, volume identifier or target path, and an
  unpublish request without volume identifier or target path, fails with InvalidArgument,
  and the history is returned as it was: no process has been run, and no other call has
  left the node server.
\<close>

theorem validation_rejects_before_exec:
  "(volume_capability req = None \<or> volume_id req = [] \<or> target_path req = []
      \<longrightarrow> fails_with InvalidArgument (NodePublishVolume h ns tr req)
          \<and> snd (NodePublishVolume h ns tr req) = (ns, tr))
   \<and> (u_volume_id ureq = [] \<or> u_target_path ureq = []
      \<longrightarrow> fails_with InvalidArgument (NodeUnpublishVolume h ns tr ureq)
          \<and> snd (NodeUnpublishVolume h ns tr ureq) = (ns, tr))"
  by (auto simp: NodePublishVolume_def NodeUnpublishVolume_def fails_with_def)

theorem validation_rejects_before_exec_witness:
  "fails_with InvalidArgument
     (NodePublishVolume demo_host demo_ns [] (demo_req\<lparr>volume_capability := None\<rparr>))
   \<and> snd (NodePublishVolume demo_host demo_ns [] (demo_req\<lparr>volume_capability := None\<rparr>))
       = (demo_ns, [])
   \<and> fails_with InvalidArgument
     (NodeUnpublishVolume demo_host demo_ns [] (demo_unpublish\<lparr>u_target_path := []\<rparr>))
   \<and> snd (NodeUnpublishVolume demo_host demo_ns [] (demo_unpublish\<lparr>u_target_path := []\<rparr>))
       = (demo_ns, [])"
  using validation_rejects_before_exec
    [of "demo_req\<lparr>volume_capability := None\<rparr>" demo_host demo_ns "[]"
        "demo_unpublish\<lparr>u_target_path := []\<rparr>"]
  by simp

text \<open>
  C7, as amended: for every valid unpublish request whose target path the mount-point
  query answers to be not a mount point, no unmount is attempted. When the query returns
  no error, the \<^verbatim>\<open>delete\<close> invocation of the image tool is made, and the call succeeds
  when that invocation succeeds and returns its error otherwise. When the query returns an
  error, as it does for a target path that does not exist, the call fails with an Internal
  status and the release is not attempted.
\<close>

theorem unpublish_not_mounted:
  assumes "u_volume_id req \<noteq> []" "u_target_path req \<noteq> []"
    and "fst (do_stat h tr (u_target_path req))"
  shows "NodeUnpublishVolume h ns tr req =
     (case snd (do_stat h tr (u_target_path req)) of
        Some e \<Rightarrow>
          (Inl (Status Internal (Error_text e)), ns,
           tr @ [IsLikelyNotMountPoint (u_target_path req)])
      | None \<Rightarrow>
          ((case fst (unsetupVolume h ns (tr @ [IsLikelyNotMountPoint (u_target_path req)])
                        (u_volume_id req)) of
              Some e \<Rightarrow> Inl e | None \<Rightarrow> Inr ()),
           ns\<lparr>execPath := ''/bin/buildah''\<rparr>,
           tr @ [IsLikelyNotMountPoint (u_target_path req),
                 Exec ''/bin/buildah'' [''delete'', u_volume_id req]]))"
proof (cases "snd (do_stat h tr (u_target_path req))")
  case None
  with assms(3) have "do_stat h tr (u_target_path req) = (True, None)"
    by (cases "do_stat h tr (u_target_path req)") simp
  from NodeUnpublishVolume_valid [OF assms(1,2) this, of ns] None show ?thesis
    by (simp add: Let_def unsetupVolume_eq)
next
  case (Some e)
  then have "do_stat h tr (u_target_path req) = (fst (do_stat h tr (u_target_path req)), Some e)"
    by (cases "do_stat h tr (u_target_path req)") simp
  from NodeUnpublishVolume_query_fails [OF assms(1,2) this, of ns] Some show ?thesis
    by simp
qed

theorem unpublish_not_mounted_witness:
  "NodeUnpublishVolume demo_host demo_ns [] demo_unpublish =
     (Inr (), demo_ns\<lparr>execPath := ''/bin/buildah''\<rparr>,
      [IsLikelyNotMountPoint ''/mnt/x'', Exec ''/bin/buildah'' [''delete'', ''vol-1'']])
   \<and> NodeUnpublishVolume missing_host demo_ns [] demo_unpublish =
     (Inl (Status Internal ''no such file or directory''), demo_ns,
      [IsLikelyNotMountPoint ''/mnt/x''])"
proof -
  have v: "u_volume_id demo_unpublish \<noteq> []" "u_target_path demo_unpublish \<noteq> []"
    by (simp_all add: demo_unpublish_def)
  have m: "fst (do_stat demo_host [] (u_target_path demo_unpublish))"
    "snd (do_stat demo_host [] (u_target_path demo_unpublish)) = None"
    by (simp_all add: demo_defs)
  have n: "fst (do_stat missing_host [] (u_target_path demo_unpublish))"
    "snd (do_stat missing_host [] (u_target_path demo_unpublish)) =
       Some (ErrNotExist ''no such file or directory'')"
    by (simp_all add: demo_defs)
  have s: "fst (unsetupVolume demo_host demo_ns
      ([] @ [IsLikelyNotMountPoint (u_target_path demo_unpublish)])
      (u_volume_id demo_unpublish)) = None"
    by (simp add: unsetupVolume_eq runCmd_def Let_def demo_defs)
  have f: "u_volume_id demo_unpublish = ''vol-1''" "u_target_path demo_unpublish = ''/mnt/x''"
    by (simp_all add: demo_unpublish_def)
  from unpublish_not_mounted [OF v m(1), of demo_ns]
    unpublish_not_mounted [OF v n(1), of demo_ns] m(2) n(2) s f
  show ?thesis by simp
qed

text \<open>
  C7 as the specification states it fails: the target path does not exist, so it is not a
  mount point, and the release would succeed; the call fails with an Internal status after
  the query alone, and the release is not attempted.
\<close>

theorem unpublish_missing_path_counterexample:
  "do_stat missing_host [] ''/mnt/x'' = (True, Some (ErrNotExist ''no such file or directory''))
   \<and> fst (unsetupVolume missing_host demo_ns [IsLikelyNotMountPoint ''/mnt/x''] ''vol-1'') = None
   \<and> NodeUnpublishVolume missing_host demo_ns [] demo_unpublish =
     (Inl (Status Internal ''no such file or directory''), demo_ns,
      [IsLikelyNotMountPoint ''/mnt/x''])
   \<and> fst (NodeUnpublishVolume missing_host demo_ns [] demo_unpublish) \<noteq> Inr ()
   \<and> Exec ''/bin/buildah'' [''delete'', ''vol-1'']
       \<notin> set (snd (snd (NodeUnpublishVolume missing_host demo_ns [] demo_unpublish)))"
  by (simp add: NodeUnpublishVolume_def unsetupVolume_eq runCmd_def Let_def demo_defs)

text \<open>
  C8, as amended: for every valid unpublish request whose target path is reported as a
  mount point, exactly one unmount of the target path is attempted. When it succeeds it is
  followed by exactly one \<^verbatim>\<open>delete\<close> invocation of the image tool for the volume
  identifier, and the call returns the outcome of that invocation; when it fails the call
  fails with an Internal status and no invocation of the tool is made.
\<close>

theorem unpublish_mounted:
  assumes "u_volume_id req \<noteq> []" "u_target_path req \<noteq> []"
    and "do_stat h tr (u_target_path req) = (False, None)"
  shows "NodeUnpublishVolume h ns tr req =
     (case do_unmount h (tr @ [IsLikelyNotMountPoint (u_target_path req)]) (u_target_path req) of
        Some e \<Rightarrow>
          (Inl (Status Internal (Error_text e)), ns,
           tr @ [IsLikelyNotMountPoint (u_target_path req), Unmount (u_target_path req)])
      | None \<Rightarrow>
          ((case fst (unsetupVolume h ns
                        (tr @ [IsLikelyNotMountPoint (u_target_path req),
                               Unmount (u_target_path req)])
                        (u_volume_id req)) of
              Some e \<Rightarrow> Inl e | None \<Rightarrow> Inr ()),
           ns\<lparr>execPath := ''/bin/buildah''\<rparr>,
           tr @ [IsLikelyNotMountPoint (u_target_path req), Unmount (u_target_path req),
                 Exec ''/bin/buildah'' [''delete'', u_volume_id req]]))"
  unfolding NodeUnpublishVolume_valid [OF assms] Let_def
  by (simp add: unsetupVolume_eq split: option.splits)

theorem unpublish_mounted_witness:
  "NodeUnpublishVolume demo_host demo_ns
     [Mount ''/var/lib/containers/merged'' ''/mnt/x'' [] [''bind'']] demo_unpublish =
     (Inr (), demo_ns\<lparr>execPath := ''/bin/buildah''\<rparr>,
      [Mount ''/var/lib/containers/merged'' ''/mnt/x'' [] [''bind''],
       IsLikelyNotMountPoint ''/mnt/x'', Unmount ''/mnt/x'',
       Exec ''/bin/buildah'' [''delete'', ''vol-1'']])"
proof -
  let ?tr = "[Mount ''/var/lib/containers/merged'' ''/mnt/x'' [] [''bind'']]"
  have v: "u_volume_id demo_unpublish \<noteq> []" "u_target_path demo_unpublish \<noteq> []"
    by (simp_all add: demo_unpublish_def)
  have m: "do_stat demo_host ?tr (u_target_path demo_unpublish) = (False, None)"
    by (simp add: demo_defs)
  have u: "do_unmount demo_host (?tr @ [IsLikelyNotMountPoint (u_target_path demo_unpublish)])
      (u_target_path demo_unpublish) = None"
    by (simp add: demo_defs)
  have s: "fst (unsetupVolume demo_host demo_ns
      (?tr @ [IsLikelyNotMountPoint (u_target_path demo_unpublish),
              Unmount (u_target_path demo_unpublish)])
      (u_volume_id demo_unpublish)) = None"
    by (simp add: unsetupVolume_eq runCmd_def Let_def demo_defs)
  have f: "u_volume_id demo_unpublish = ''vol-1''" "u_target_path demo_unpublish = ''/mnt/x''"
    by (simp_all add: demo_unpublish_def)
  from unpublish_mounted [OF v m, of demo_ns] u s f show ?thesis by simp
qed

text \<open>
  C8 as the specification states it fails: the target is a mount point and the unmount
  fails; one unmount has been attempted and no release invocation follows.
\<close>

theorem unpublish_busy_counterexample:
  "do_stat busy_host [Mount ''/var/lib/containers/merged'' ''/mnt/x'' [] [''bind'']] ''/mnt/x''
     = (False, None)
   \<and> NodeUnpublishVolume busy_host demo_ns
     [Mount ''/var/lib/containers/merged'' ''/mnt/x'' [] [''bind'']] demo_unpublish =
     (Inl (Status Internal ''target is busy''), demo_ns,
      [Mount ''/var/lib/containers/merged'' ''/mnt/x'' [] [''bind''],
       IsLikelyNotMountPoint ''/mnt/x'', Unmount ''/mnt/x''])
   \<and> Exec ''/bin/buildah'' [''delete'', ''vol-1'']
       \<notin> set (snd (snd (NodeUnpublishVolume busy_host demo_ns
             [Mount ''/var/lib/containers/merged'' ''/mnt/x'' [] [''bind'']] demo_unpublish)))"
  by (simp add: NodeUnpublishVolume_def unpublish_unmount_def Let_def demo_defs)

text \<open>
  C9: for every publish request that passes field validation and has no \<^verbatim>\<open>image\<close> key in
  its volume context, the call is not rejected as InvalidArgument, and its first action is
  the provisioning command with the empty string as image reference.
\<close>

theorem publish_missing_image:
  assumes "volume_capability req \<noteq> None" "volume_id req \<noteq> []" "target_path req \<noteq> []"
    and "\<not> has_key (volume_context req) ''image''"
  shows "\<not> fails_with InvalidArgument (NodePublishVolume h ns tr req)
     \<and> take 1 (new_events tr (NodePublishVolume h ns tr req)) =
         [Exec ''/bin/buildah'' [''from'', ''--name'', volume_id req, ''--pull'', []]]"
proof -
  from assms(4) have "index_map (volume_context req) ''image'' = []"
    by (auto simp: has_key_def index_map_def split: option.splits)
  with NodePublishVolume_valid_code [OF assms(1-3), of h ns tr]
    NodePublishVolume_valid_first [OF assms(1-3), of tr h ns]
  show ?thesis by simp
qed

theorem publish_missing_image_witness:
  "NodePublishVolume demo_host demo_ns [] (demo_req\<lparr>volume_context := None\<rparr>) =
     (Inr (), demo_ns\<lparr>execPath := ''/bin/buildah''\<rparr>,
      [Exec ''/bin/buildah'' [''from'', ''--name'', ''vol-1'', ''--pull'', []],
       IsLikelyNotMountPoint ''/mnt/x'',
       Exec ''/bin/buildah'' [''mount'', ''vol-1''],
       Mount ''/var/lib/containers/merged'' ''/mnt/x'' [] [''bind'', ''ro'']])
   \<and> \<not> fails_with InvalidArgument
         (NodePublishVolume demo_host demo_ns [] (demo_req\<lparr>volume_context := None\<rparr>))
   \<and> take 1 (new_events []
         (NodePublishVolume demo_host demo_ns [] (demo_req\<lparr>volume_context := None\<rparr>))) =
       [Exec ''/bin/buildah'' [''from'', ''--name'', ''vol-1'', ''--pull'', []]]"
proof -
  let ?req = "demo_req\<lparr>volume_context := None\<rparr>"
  have v: "volume_capability ?req \<noteq> None" "volume_id ?req \<noteq> []" "target_path ?req \<noteq> []"
    by (simp_all add: demo_req_def)
  have k: "\<not> has_key (volume_context ?req) ''image''"
    by (simp add: has_key_def)
  have f: "volume_id ?req = ''vol-1''" by (simp add: demo_req_def)
  have e: "NodePublishVolume demo_host demo_ns [] ?req =
     (Inr (), demo_ns\<lparr>execPath := ''/bin/buildah''\<rparr>,
      [Exec ''/bin/buildah'' [''from'', ''--name'', ''vol-1'', ''--pull'', []],
       IsLikelyNotMountPoint ''/mnt/x'',
       Exec ''/bin/buildah'' [''mount'', ''vol-1''],
       Mount ''/var/lib/containers/merged'' ''/mnt/x'' [] [''bind'', ''ro'']])"
    using trim_root
    by (simp add: NodePublishVolume_def setupVolume_eq publish_mount_True publish_mount_False
        runCmd_def index_map_def Let_def demo_defs)
  from publish_missing_image [OF v k, of demo_host demo_ns "[]"] f e show ?thesis by simp
qed

text \<open>
  C10: for every publish call that performs a bind mount, the file-system type passed to
  the mount is the empty string; and the file-system type of the capability has no
  influence at all: the call returns the same result, node server and history for any
  other file-system type in the request.
\<close>

theorem publish_mount_fstype:
  "(Mount src tgt fs opts \<in> set (new_events tr (NodePublishVolume h ns tr req)) \<longrightarrow> fs = [])
   \<and> NodePublishVolume h ns tr (with_fs_type f req) = NodePublishVolume h ns tr req"
  using NodePublishVolume_Mount_event [of src tgt fs opts tr h ns req] with_fs_type_same
  by blast

theorem publish_mount_fstype_witness:
  "Mount ''/var/lib/containers/merged'' ''/mnt/x'' [] [''bind'', ''ro'']
     \<in> set (new_events [] (NodePublishVolume demo_host demo_ns [] demo_req))
   \<and> NodePublishVolume demo_host demo_ns [] (with_fs_type ''xfs'' demo_req) =
       NodePublishVolume demo_host demo_ns [] demo_req
   \<and> GetFsType (GetMount (volume_capability (with_fs_type ''xfs'' demo_req))) = ''xfs''"
proof -
  have h: "Mount ''/var/lib/containers/merged'' ''/mnt/x'' [] [''bind'', ''ro'']
     \<in> set (new_events [] (NodePublishVolume demo_host demo_ns [] demo_req))"
    by (simp add: demo_publish new_events_def)
  have g: "GetFsType (GetMount (volume_capability (with_fs_type ''xfs'' demo_req))) = ''xfs''"
    by (simp add: with_fs_type_def demo_req_def GetFsType_def GetMount_def)
  from h g publish_mount_fstype
    [of "''/var/lib/containers/merged''" "''/mnt/x''" "[]" "[''bind'', ''ro'']" "[]"
        demo_host demo_ns demo_req "''xfs''"]
  show ?thesis by simp
qed

end
